theory Spec2Isabelle
  imports Main "HOL-Library.Word"
begin

section \<open>Voice-clone TTS backend: the request pipeline of app/main.py\<close>

text \<open>
  The development embeds \<^verbatim>\<open>src/app/main.py\<close>: process start-up (lines 22-30), the
  temporary-file helpers, the two provider wrappers and the handler of
  \<^verbatim>\<open>POST /synthesize\<close>. Everything the handler touches outside its arguments is a field
  of the record \<open>world\<close>: the file system, the process environment, the names the
  temporary-file module will draw, the log of clone calls sent to the provider, and what
  the Python runtime and the platform decide.
  The handler body contains no \<^verbatim>\<open>await\<close>, so one run of it is one atomic step on the world.
\<close>

subsection \<open>Exceptions\<close>

type_synonym bytes = "8 word list"

text \<open>
  An exception is either the framework's \<^verbatim>\<open>HTTPException(status_code, detail)\<close> or any other
  subclass of \<^verbatim>\<open>Exception\<close>, kept as its class name and the text \<^verbatim>\<open>str(e)\<close> gives.
\<close>

datatype exn = HTTPException nat string | PyException string string

function show_nat :: "nat \<Rightarrow> string" where
  "show_nat n =
     (if n < 10 then [''0123456789'' ! n]
      else show_nat (n div 10) @ [''0123456789'' ! (n mod 10)])"
  by pat_completeness auto
termination
  by (relation "measure (\<lambda>n. n)") auto

declare show_nat.simps [simp del]

text \<open>
  \<^verbatim>\<open>f"{e}"\<close> formats an exception with \<^verbatim>\<open>str(e)\<close>. For \<^verbatim>\<open>HTTPException\<close> that is the
  framework's \<^verbatim>\<open>f"{self.status_code}: {self.detail}"\<close>.
\<close>

fun exn_str :: "exn \<Rightarrow> string" where
  "exn_str (HTTPException status_code detail) = show_nat status_code @ '': '' @ detail"
| "exn_str (PyException cls msg) = msg"

subsection \<open>The world outside the handler\<close>

text \<open>
  What the Python runtime and the platform decide and this repository does not: the
  result of \<^verbatim>\<open>int(s)\<close> on a string with a character outside ASCII (the digit and
  blank tables of the runtime's Unicode version), the text of the \<^verbatim>\<open>ValueError\<close>
  that \<^verbatim>\<open>int(s)\<close> raises, the limit on the number of digits \<^verbatim>\<open>int(s)\<close> converts
  (0: no limit), and whether an anonymous temporary file can be opened without a name
  (\<^verbatim>\<open>O_TMPFILE\<close>).
\<close>

record runtime =
  unicode_int :: "string \<Rightarrow> int option"
  int_error_text :: "string \<Rightarrow> string"
  int_max_str_digits :: nat
  o_tmpfile :: bool

record world =
  files :: "string \<rightharpoonup> bytes"
  environ :: "string \<rightharpoonup> string"
  tmpdir :: string
  names :: "string list"
  ivc_calls :: "(string \<times> bytes) list"
  anon_tempfiles :: nat
  python :: runtime

text \<open>
  \<open>names\<close> holds the candidate names the random name sequence of the \<^verbatim>\<open>tempfile\<close> module
  yields from now on, in order. \<open>ivc_calls\<close> records every clone request sent to the
  provider: the display name and the audio bytes. \<open>anon_tempfiles\<close> counts the anonymous
  temporary files created so far: files without a name in the file system, which
  disappear when closed.
\<close>

record provider =
  ivc_create :: "string \<Rightarrow> bytes \<Rightarrow> exn + string"
  tts_convert :: "string \<Rightarrow> string \<Rightarrow> string \<Rightarrow> string \<Rightarrow> exn + (bytes list \<times> exn option)"

text \<open>
  The provider is an external collaborator and stays a parameter. \<open>ivc_create name audio\<close>
  answers with a voice id or raises. \<open>tts_convert text voice_id model_id output_format\<close>
  raises at once, or hands back the chunks it will deliver followed by the exception that
  ends the iteration early, if any.
\<close>

record UploadFile =
  filename :: string
  content :: bytes
  read_error :: "exn option"

text \<open>
  An upload is read front to back: \<^verbatim>\<open>upload.file.read(n)\<close> returns the next \<open>n\<close> bytes of
  \<open>content\<close>; once \<open>content\<close> is used up the read raises \<open>read_error\<close> when there is one and
  returns the empty chunk otherwise.
\<close>

subsection \<open>Start-up configuration (lines 22-30)\<close>

record config =
  ELEVENLABS_API_KEY :: string
  BACKEND_ACCESS_KEY :: string



definition OUTPUT_FORMAT :: string where
  "OUTPUT_FORMAT = ''mp3_44100_128''"

subsection \<open>Python's int() on a string\<close>

definition is_ascii :: "char \<Rightarrow> bool" where
  "is_ascii c = ((of_char c :: nat) < 128)"

definition is_space :: "char \<Rightarrow> bool" where
  "is_space c = (let n = (of_char c :: nat) in (9 \<le> n \<and> n \<le> 13) \<or> n = 32)"

definition is_digit :: "char \<Rightarrow> bool" where
  "is_digit c = (let n = (of_char c :: nat) in 48 \<le> n \<and> n \<le> 57)"

definition strip :: "string \<Rightarrow> string" where
  "strip s = rev (dropWhile is_space (rev (dropWhile is_space s)))"

text \<open>
  \<^verbatim>\<open>int(s)\<close> on an ASCII string: the blanks \<^verbatim>\<open>\t \n \v \f \r\<close> and the space are
  skipped at both ends, one sign is allowed, then come decimal digits, with single
  underscores allowed between two digits. \<open>prev\<close> tells whether the character just read
  was a digit. A literal with more digits than the runtime's limit is refused. On a
  string with a character outside ASCII the result is the runtime's.
\<close>

fun parse_digits :: "nat \<Rightarrow> bool \<Rightarrow> string \<Rightarrow> nat option" where
  "parse_digits acc prev [] = (if prev then Some acc else None)"
| "parse_digits acc prev (c # cs) =
     (if is_digit c then parse_digits (10 * acc + (of_char c - 48)) True cs
      else if c = CHR ''_'' \<and> prev then parse_digits acc False cs
      else None)"

definition ascii_int :: "nat \<Rightarrow> string \<Rightarrow> int option" where
  "ascii_int limit s =
     (if 0 < limit \<and> limit < length (filter is_digit s) then None
      else
        case strip s of
          [] \<Rightarrow> None
        | c # cs \<Rightarrow>
            if c = CHR ''-'' then map_option (\<lambda>n. - int n) (parse_digits 0 False cs)
            else if c = CHR ''+'' then map_option int (parse_digits 0 False cs)
            else map_option int (parse_digits 0 False (c # cs)))"

definition py_int :: "runtime \<Rightarrow> string \<Rightarrow> int option" where
  "py_int rt s =
     (if list_all is_ascii s then ascii_int (int_max_str_digits rt) s else unicode_int rt s)"

definition py_repr :: "string \<Rightarrow> string" where
  "py_repr s = [CHR 0x27] @ s @ [CHR 0x27]"

text \<open>
  Line 127: \<^verbatim>\<open>int(os.getenv("MAX_REF_BYTES", 10 * 1024 * 1024))\<close>, evaluated inside the
  handler on the environment of that moment. A value that is no integer literal raises
  \<^verbatim>\<open>ValueError\<close>. (\<open>py_repr\<close> quotes a path without escaping; it only occurs in the text
  of \<^verbatim>\<open>FileNotFoundError\<close>, and no statement below depends on it.)
\<close>

definition MAX_REF_BYTES :: "world \<Rightarrow> exn + int" where
  "MAX_REF_BYTES w =
     (case environ w ''MAX_REF_BYTES'' of
        None \<Rightarrow> Inr (10 * 1024 * 1024)
      | Some s \<Rightarrow>
          (case py_int (python w) s of
             None \<Rightarrow> Inl (PyException ''ValueError'' (int_error_text (python w) s))
           | Some i \<Rightarrow> Inr i))"

subsection \<open>Paths\<close>

definition basename :: "string \<Rightarrow> string" where
  "basename p = rev (takeWhile (\<lambda>c. c \<noteq> CHR ''/'') (rev p))"

text \<open>
  \<^verbatim>\<open>os.path.splitext(p)[1]\<close>: the text from the last dot of the last path component on,
  provided some character other than a dot stands before that dot in the component.
\<close>

definition splitext_ext :: "string \<Rightarrow> string" where
  "splitext_ext p =
     (let base = basename p;
          tail = rev (takeWhile (\<lambda>c. c \<noteq> CHR ''.'') (rev base));
          stem = take (length base - length tail - 1) base
      in if CHR ''.'' \<in> set base \<and> (\<exists>c \<in> set stem. c \<noteq> CHR ''.'')
         then CHR ''.'' # tail else [])"

definition path_join :: "string \<Rightarrow> string \<Rightarrow> string" where
  "path_join a b =
     (if b \<noteq> [] \<and> hd b = CHR ''/'' then b
      else if a = [] \<or> last a = CHR ''/'' then a @ b
      else a @ ''/'' @ b)"

subsection \<open>Temporary files\<close>

text \<open>
  \<^verbatim>\<open>tempfile.NamedTemporaryFile(delete=False, suffix=..., prefix=...)\<close> draws candidate names
  until one names no existing file and creates that file empty. Running out of candidates
  stands for the module giving up with \<^verbatim>\<open>FileExistsError\<close>.
\<close>

fun mkstemp_inner ::
  "(string \<rightharpoonup> bytes) \<Rightarrow> string \<Rightarrow> string \<Rightarrow> string \<Rightarrow> string list \<Rightarrow> (string \<times> string list) option"
where
  "mkstemp_inner fs dir pre suf [] = None"
| "mkstemp_inner fs dir pre suf (name # rest) =
     (let file = path_join dir (pre @ name @ suf)
      in if fs file \<noteq> None then mkstemp_inner fs dir pre suf rest else Some (file, rest))"

definition NamedTemporaryFile :: "string \<Rightarrow> string \<Rightarrow> world \<Rightarrow> (exn + string) \<times> world" where
  "NamedTemporaryFile suffix prefix w =
     (case mkstemp_inner (files w) (tmpdir w) prefix suffix (names w) of
        None \<Rightarrow>
          (Inl (PyException ''FileExistsError''
                  ''[Errno 17] No usable temporary file name found''),
           w\<lparr>names := []\<rparr>)
      | Some (path, rest) \<Rightarrow>
          (Inr path, w\<lparr>files := (files w)(path \<mapsto> []), names := rest\<rparr>))"

text \<open>
  The copy loop of \<open>_save_upload_tempfile\<close> (lines 45-49): read up to 1 MiB, stop at the
  empty chunk, append otherwise. It returns what was written and the exception of the
  read that failed, if one did.
\<close>

function copy_loop :: "exn option \<Rightarrow> bytes \<Rightarrow> bytes \<Rightarrow> bytes \<times> exn option" where
  "copy_loop err remaining written =
     (if remaining = [] then (written, err)
      else copy_loop err (drop (1024 * 1024) remaining)
             (written @ take (1024 * 1024) remaining))"
  by pat_completeness auto
termination
  by (relation "measure (\<lambda>(err, remaining, written). length remaining)") auto

declare copy_loop.simps [simp del]

definition save_upload_tempfile :: "UploadFile \<Rightarrow> world \<Rightarrow> (exn + string) \<times> world" where
  "save_upload_tempfile upload w =
     (let ext = splitext_ext (filename upload);
          suffix = (if ext \<noteq> [] then ext else ''.wav'')
      in case NamedTemporaryFile suffix ''ref_'' w of
           (Inl e, w1) \<Rightarrow> (Inl e, w1)
         | (Inr path, w1) \<Rightarrow>
             (case copy_loop (read_error upload) (content upload) [] of
                (written, err) \<Rightarrow>
                  (let w2 = w1\<lparr>files := (files w1)(path \<mapsto> written)\<rparr>
                   in case err of Some e \<Rightarrow> (Inl e, w2) | None \<Rightarrow> (Inr path, w2))))"

text \<open>\<open>_remove_file\<close> (lines 55-60): delete when the path is given, non-empty and present.\<close>

definition remove_file :: "string option \<Rightarrow> world \<Rightarrow> world" where
  "remove_file path w =
     (case path of
        None \<Rightarrow> w
      | Some p \<Rightarrow>
          if p \<noteq> [] \<and> files w p \<noteq> None then w\<lparr>files := (files w)(p := None)\<rparr> else w)"

definition getsize :: "world \<Rightarrow> string \<Rightarrow> exn + nat" where
  "getsize w p =
     (case files w p of
        None \<Rightarrow>
          Inl (PyException ''FileNotFoundError''
                 (''[Errno 2] No such file or directory: '' @ py_repr p))
      | Some b \<Rightarrow> Inr (length b))"

subsection \<open>The provider wrappers\<close>

record voice =
  voice_id :: string

text \<open>
  \<open>create_voice_from_reference\<close> (lines 63-72) reads the whole reference file and sends
  it to the provider under the given display name.
\<close>

definition create_voice_from_reference ::
  "provider \<Rightarrow> string \<Rightarrow> string \<Rightarrow> world \<Rightarrow> (exn + voice) \<times> world"
where
  "create_voice_from_reference prov clone_name ref_path w =
     (case files w ref_path of
        None \<Rightarrow>
          (Inl (PyException ''FileNotFoundError''
                  (''[Errno 2] No such file or directory: '' @ py_repr ref_path)), w)
      | Some audio_bytes \<Rightarrow>
          (let w1 = w\<lparr>ivc_calls := ivc_calls w @ [(clone_name, audio_bytes)]\<rparr>
           in case ivc_create prov clone_name audio_bytes of
                Inl e \<Rightarrow> (Inl e, w1)
              | Inr vid \<Rightarrow> (Inr \<lparr>voice_id = vid\<rparr>, w1)))"

text \<open>The write loop of lines 89-91: every non-empty chunk is appended in arrival order.\<close>

fun write_chunks :: "bytes list \<Rightarrow> bytes \<Rightarrow> bytes" where
  "write_chunks [] f = f"
| "write_chunks (chunk # rest) f =
     (if chunk \<noteq> [] then write_chunks rest (f @ chunk) else write_chunks rest f)"

text \<open>The condition of line 93: the file is missing or shorter than 100 bytes.\<close>

definition too_small :: "world \<Rightarrow> string \<Rightarrow> bool" where
  "too_small w out_path =
     (case files w out_path of None \<Rightarrow> True | Some b \<Rightarrow> length b < 100)"

definition synthesize_text_to_file ::
  "provider \<Rightarrow> string \<Rightarrow> string \<Rightarrow> string \<Rightarrow> world \<Rightarrow> (exn + string) \<times> world"
where
  "synthesize_text_to_file prov vid text out_path w =
     (case tts_convert prov text vid ''eleven_multilingual_v2'' OUTPUT_FORMAT of
        Inl e \<Rightarrow> (Inl e, w)
      | Inr (chunks, err) \<Rightarrow>
          (let w1 = w\<lparr>files := (files w)(out_path \<mapsto> write_chunks chunks [])\<rparr>
           in case err of
                Some e \<Rightarrow> (Inl e, w1)
              | None \<Rightarrow>
                  if too_small w1 out_path
                  then (Inl (PyException ''RuntimeError''
                               ''Synthesized file is empty or too small''), w1)
                  else (Inr out_path, w1)))"

subsection \<open>The handler of POST /synthesize (lines 106-163)\<close>

record response =
  status_code :: nat
  media_type :: string
  headers :: "(string \<times> string) list"
  body :: bytes

text \<open>
  \<^verbatim>\<open>StreamingResponse(content, media_type=..., headers=...)\<close>: the status code is the
  constructor's default, 200. \<open>body\<close> is what the opened file holds.
\<close>

definition StreamingResponse :: "bytes \<Rightarrow> string \<Rightarrow> (string \<times> string) list \<Rightarrow> response" where
  "StreamingResponse file_like mt hs =
     \<lparr>status_code = 200, media_type = mt, headers = hs, body = file_like\<rparr>"

text \<open>
  The headers as sent: the ones given, then \<^verbatim>\<open>Content-Type\<close> from the media type unless
  one was given.
\<close>

definition sent_headers :: "response \<Rightarrow> (string \<times> string) list" where
  "sent_headers r =
     (if ''Content-Type'' \<in> fst ` set (headers r) then headers r
      else headers r @ [(''Content-Type'', media_type r)])"

text \<open>
  The body of the first \<^verbatim>\<open>try\<close> (lines 132-136): save the upload, then compare the size of
  the saved file with the ceiling; above it, remove the file and raise the 400.
\<close>

definition save_reference :: "UploadFile \<Rightarrow> int \<Rightarrow> world \<Rightarrow> (exn + string) \<times> world" where
  "save_reference ref_audio max_bytes w =
     (case save_upload_tempfile ref_audio w of
        (Inl e, w1) \<Rightarrow> (Inl e, w1)
      | (Inr ref_path, w1) \<Rightarrow>
          (case getsize w1 ref_path of
             Inl e \<Rightarrow> (Inl e, w1)
           | Inr n \<Rightarrow>
               if int n > max_bytes
               then (Inl (HTTPException 400 ''Reference file too large''),
                     remove_file (Some ref_path) w1)
               else (Inr ref_path, w1)))"

definition clone_name_of :: "string \<Rightarrow> string" where
  "clone_name_of ref_path = ''ref_clone_'' @ basename ref_path"

definition tts_headers :: "(string \<times> string) list" where
  "tts_headers = [(''Content-Disposition'', ''attachment; filename='' @ [CHR 0x22] @ ''tts.mp3'' @ [CHR 0x22])]"

text \<open>The body of the second \<^verbatim>\<open>try\<close> (lines 150-160): clone, synthesize, open, respond.\<close>

definition clone_and_synthesize ::
  "provider \<Rightarrow> string \<Rightarrow> string \<Rightarrow> string \<Rightarrow> world \<Rightarrow> (exn + response) \<times> world"
where
  "clone_and_synthesize prov text ref_path out_path w =
     (case create_voice_from_reference prov (clone_name_of ref_path) ref_path w of
        (Inl e, w1) \<Rightarrow> (Inl e, w1)
      | (Inr v, w1) \<Rightarrow>
          (case synthesize_text_to_file prov (voice_id v) text out_path w1 of
             (Inl e, w2) \<Rightarrow> (Inl e, w2)
           | (Inr p, w2) \<Rightarrow>
               (case files w2 out_path of
                  None \<Rightarrow>
                    (Inl (PyException ''FileNotFoundError''
                            (''[Errno 2] No such file or directory: '' @ py_repr out_path)),
                     w2)
                | Some file_like \<Rightarrow>
                    (Inr (StreamingResponse file_like ''audio/mpeg'' tts_headers), w2))))"

text \<open>
  The handler returns what it raises or returns, the paths handed to
  \<^verbatim>\<open>background_tasks.add_task(_remove_file, ...)\<close> in order, and the world it leaves.
  Each \<^verbatim>\<open>except Exception as e\<close> turns whatever its \<^verbatim>\<open>try\<close> body raised into a 500.
\<close>

definition synthesize_endpoint ::
  "config \<Rightarrow> provider \<Rightarrow> UploadFile \<Rightarrow> string \<Rightarrow> string \<Rightarrow> world
     \<Rightarrow> (exn + response) \<times> string list \<times> world"
where
  "synthesize_endpoint cfg prov ref_audio text x_api_key w =
     (if x_api_key \<noteq> BACKEND_ACCESS_KEY cfg
      then (Inl (HTTPException 401 ''Unauthorized''), [], w)
      else
        case MAX_REF_BYTES w of
          Inl e \<Rightarrow> (Inl e, [], w)
        | Inr max_bytes \<Rightarrow>
            (case save_reference ref_audio max_bytes w of
               (Inl e, w1) \<Rightarrow>
                 (Inl (HTTPException 500 (''Failed to save reference: '' @ exn_str e)), [], w1)
             | (Inr ref_path, w1) \<Rightarrow>
                 (case NamedTemporaryFile ''.mp3'' ''out_'' w1 of
                    (Inl e, w2) \<Rightarrow> (Inl e, [], w2)
                  | (Inr out_path, w2) \<Rightarrow>
                      (case clone_and_synthesize prov text ref_path out_path w2 of
                         (Inl e, w3) \<Rightarrow>
                           (Inl (HTTPException 500 (''TTS error: '' @ exn_str e)),
                            [ref_path, out_path], w3)
                       | (Inr resp, w3) \<Rightarrow> (Inr resp, [ref_path, out_path], w3)))))"

subsection \<open>The framework around the handler\<close>

text \<open>
  A request is what the framework's multipart parser makes of the body and the headers:
  the three parameters, each possibly absent, and the parser's own verdict.
  \<open>parser_refusal\<close> is \<open>None\<close> when the parser accepts the body; otherwise it holds
  the detail of the 400 it answers with (a malformed body, a part over one of its limits)
  and whether it had already moved an upload to disk when it gave up. Those checks are the
  framework's and stay a parameter.
\<close>

record request =
  header_x_api_key :: "string option"
  form_ref_audio :: "UploadFile option"
  form_text :: "string option"
  parser_refusal :: "(string \<times> bool) option"

datatype reply =
  ValidationError
| ErrorReply nat string
| ServerError exn
| Streamed response

fun reply_status :: "reply \<Rightarrow> nat" where
  "reply_status ValidationError = 422"
| "reply_status (ErrorReply s d) = s"
| "reply_status (ServerError e) = 500"
| "reply_status (Streamed r) = status_code r"

fun run_background :: "string list \<Rightarrow> world \<Rightarrow> world" where
  "run_background [] w = w"
| "run_background (p # ps) w = run_background ps (remove_file (Some p) w)"

text \<open>
  \<^verbatim>\<open>tempfile.TemporaryFile()\<close>: an anonymous file. Where \<^verbatim>\<open>O_TMPFILE\<close> works no name is
  drawn; elsewhere a name is drawn as for a named file (prefix \<^verbatim>\<open>tmp\<close>, no suffix) and
  unlinked at once, so that the names in the file system are the same afterwards.
\<close>

definition TemporaryFile :: "world \<Rightarrow> exn option \<times> world" where
  "TemporaryFile w =
     (if o_tmpfile (python w) then (None, w\<lparr>anon_tempfiles := Suc (anon_tempfiles w)\<rparr>)
      else
        case mkstemp_inner (files w) (tmpdir w) ''tmp'' [] (names w) of
          None \<Rightarrow>
            (Some (PyException ''FileExistsError''
                     ''[Errno 17] No usable temporary file name found''),
             w\<lparr>names := []\<rparr>)
        | Some (path, rest) \<Rightarrow>
            (None, w\<lparr>names := rest, anon_tempfiles := Suc (anon_tempfiles w)\<rparr>))"

definition spool_max_size :: nat where
  "spool_max_size = 1024 * 1024"

text \<open>
  Reading the form, before anything else: the framework keeps an upload in memory up to
  \<open>spool_max_size\<close> bytes and moves a longer one to an anonymous temporary file. The
  result is the detail of a 400 when the body is refused or cannot be stored.
\<close>

definition parse_form :: "request \<Rightarrow> world \<Rightarrow> string option \<times> world" where
  "parse_form req w =
     (case parser_refusal req of
        Some (detail, spooled) \<Rightarrow>
          (Some detail, if spooled then snd (TemporaryFile w) else w)
      | None \<Rightarrow>
          (case form_ref_audio req of
             None \<Rightarrow> (None, w)
           | Some upload \<Rightarrow>
               if spool_max_size < length (content upload)
               then (case TemporaryFile w of
                       (Some e, w1) \<Rightarrow> (Some ''There was an error parsing the body'', w1)
                     | (None, w1) \<Rightarrow> (None, w1))
               else (None, w)))"

text \<open>
  The three parameters are declared required (\<^verbatim>\<open>File(...)\<close>, \<^verbatim>\<open>Form(...)\<close>,
  \<^verbatim>\<open>Header(..., alias="X-API-KEY")\<close>). A parameter that is absent counts as missing, and so
  does a form field whose value is the empty string; an empty header value is a value.
\<close>

definition validated :: "request \<Rightarrow> (UploadFile \<times> string \<times> string) option" where
  "validated req =
     (case (form_ref_audio req, form_text req, header_x_api_key req) of
        (Some ref_audio, Some text, Some x_api_key) \<Rightarrow>
          if text = [] then None else Some (ref_audio, text, x_api_key)
      | _ \<Rightarrow> None)"

text \<open>
  The endpoint as the client sees it: the form is read; a request with a missing
  parameter is answered 422 and the handler does not run; otherwise the handler runs. A
  raised \<^verbatim>\<open>HTTPException\<close> becomes a reply with its status and detail; any other exception
  is the server's plain 500. The background tasks belong to the returned response and
  run, in order, after it has been sent; a reply made from an exception carries none.
\<close>

definition post_synthesize :: "config \<Rightarrow> provider \<Rightarrow> request \<Rightarrow> world \<Rightarrow> reply \<times> world" where
  "post_synthesize cfg prov req w =
     (case parse_form req w of
        (Some detail, w0) \<Rightarrow> (ErrorReply 400 detail, w0)
      | (None, w0) \<Rightarrow>
          (case validated req of
             None \<Rightarrow> (ValidationError, w0)
           | Some (ref_audio, text, x_api_key) \<Rightarrow>
               (case synthesize_endpoint cfg prov ref_audio text x_api_key w0 of
                  (Inr resp, tasks, w1) \<Rightarrow> (Streamed resp, run_background tasks w1)
                | (Inl (HTTPException s d), tasks, w1) \<Rightarrow> (ErrorReply s d, w1)
                | (Inl (PyException c m), tasks, w1) \<Rightarrow> (ServerError (PyException c m), w1))))"

subsection \<open>Sample data\<close>

text \<open>
  A start-up environment with both keys, a world with an empty temporary directory, three
  uploads (500 KB, exactly 10 MiB, 12 MB) and four providers: one that works and delivers
  100 bytes, one that delivers 99 bytes, one whose clone call fails and one whose chunk
  iteration fails.
\<close>

definition demo_env :: "string \<rightharpoonup> string" where
  "demo_env = [''ELEVENLABS_API_KEY'' \<mapsto> ''pk-test'', ''BACKEND_ACCESS_KEY'' \<mapsto> ''secret'']"

definition demo_cfg :: config where
  "demo_cfg = \<lparr>ELEVENLABS_API_KEY = ''pk-test'', BACKEND_ACCESS_KEY = ''secret''\<rparr>"

definition demo_runtime :: runtime where
  "demo_runtime =
     \<lparr>unicode_int = (\<lambda>s. None),
      int_error_text = (\<lambda>s. ''invalid literal for int() with base 10: '' @ py_repr s),
      int_max_str_digits = 4300, o_tmpfile = True\<rparr>"

definition demo_world :: world where
  "demo_world =
     \<lparr>files = Map.empty, environ = demo_env, tmpdir = ''/tmp'',
      names = [''k3x9aq2_'', ''p0m4zz7w'', ''k3x9aq2_'', ''h8h8h8h8'', ''c7d1e5f0''], ivc_calls = [],
      anon_tempfiles = 0, python = demo_runtime\<rparr>"

definition upload_500k :: UploadFile where
  "upload_500k = \<lparr>filename = ''voice.wav'', content = replicate 500000 7, read_error = None\<rparr>"

definition upload_10mib :: UploadFile where
  "upload_10mib = \<lparr>filename = ''voice.wav'', content = replicate 10485760 7, read_error = None\<rparr>"

definition upload_12mb :: UploadFile where
  "upload_12mb = \<lparr>filename = ''voice.wav'', content = replicate 12000000 7, read_error = None\<rparr>"

definition provider_ok :: provider where
  "provider_ok =
     \<lparr>ivc_create = (\<lambda>name audio. Inr ''voice-1''),
      tts_convert = (\<lambda>text vid model fmt. Inr ([replicate 60 1, [], replicate 40 2], None))\<rparr>"

definition provider_99 :: provider where
  "provider_99 =
     \<lparr>ivc_create = (\<lambda>name audio. Inr ''voice-1''),
      tts_convert = (\<lambda>text vid model fmt. Inr ([replicate 60 1, [], replicate 39 2], None))\<rparr>"

definition provider_clone_fails :: provider where
  "provider_clone_fails =
     \<lparr>ivc_create = (\<lambda>name audio. Inl (PyException ''ApiError'' ''voice sample too short'')),
      tts_convert = (\<lambda>text vid model fmt. Inr ([replicate 60 1, [], replicate 40 2], None))\<rparr>"

definition provider_stream_fails :: provider where
  "provider_stream_fails =
     \<lparr>ivc_create = (\<lambda>name audio. Inr ''voice-1''),
      tts_convert = (\<lambda>text vid model fmt.
         Inr ([replicate 60 1], Some (PyException ''ApiError'' ''quota exceeded'')))\<rparr>"

definition demo_request :: "string option \<Rightarrow> UploadFile \<Rightarrow> request" where
  "demo_request key upload =
     \<lparr>header_x_api_key = key, form_ref_audio = Some upload, form_text = Some ''hello world'',
      parser_refusal = None\<rparr>"

section \<open>Properties\<close>

subsection \<open>Loops, paths and temporary files\<close>

lemma copy_loop_eq: "copy_loop err remaining written = (written @ remaining, err)"
proof (induction err remaining written rule: copy_loop.induct)
  case (1 err remaining written)
  show ?case
  proof (cases "remaining = []")
    case True
    then show ?thesis by (simp add: copy_loop.simps)
  next
    case False
    then show ?thesis
      using "1" by (subst copy_loop.simps) simp
  qed
qed

lemma write_chunks_eq: "write_chunks chunks f = f @ concat chunks"
  by (induction chunks arbitrary: f) simp_all

lemma show_nat_400: "show_nat 400 = ''400''"
  by (simp add: show_nat.simps)

lemma mkstemp_inner_fresh:
  "mkstemp_inner fs dir pre suf ns = Some (p, rest) \<Longrightarrow>
     fs p = None \<and> (\<exists>n \<in> set ns. p = path_join dir (pre @ n @ suf))"
  by (induction ns) (auto simp: Let_def split: if_splits)

lemma path_join_nonempty: "b \<noteq> [] \<Longrightarrow> path_join a b \<noteq> []"
  by (simp add: path_join_def)

lemma NamedTemporaryFile_ok:
  assumes "NamedTemporaryFile suf pre w = (Inr p, w1)"
  shows "files w p = None" and "files w1 = (files w)(p \<mapsto> [])"
    and "\<exists>n \<in> set (names w). p = path_join (tmpdir w) (pre @ n @ suf)"
    and "ivc_calls w1 = ivc_calls w" and "tmpdir w1 = tmpdir w" and "environ w1 = environ w"
  using assms mkstemp_inner_fresh[of "files w" "tmpdir w" pre suf "names w"]
  by (auto simp: NamedTemporaryFile_def split: option.splits prod.splits)

lemma basename_no_slash: "CHR ''/'' \<notin> set (basename p)"
  unfolding basename_def by (auto dest: set_takeWhileD)

lemma splitext_ext_no_slash: "CHR ''/'' \<notin> set (splitext_ext p)"
proof -
  have "set (rev (takeWhile (\<lambda>c. c \<noteq> CHR ''.'') (rev (basename p)))) \<subseteq> set (basename p)"
    by (auto dest: set_takeWhileD)
  then show ?thesis
    using basename_no_slash[of p] by (auto simp: splitext_ext_def Let_def)
qed

lemma save_upload_ok:
  assumes "save_upload_tempfile up w = (Inr p, w1)"
  shows "files w p = None" and "files w1 = (files w)(p \<mapsto> content up)"
    and "\<exists>n \<in> set (names w). \<exists>suf. CHR ''/'' \<notin> set suf \<and> p = path_join (tmpdir w) (''ref_'' @ n @ suf)"
    and "ivc_calls w1 = ivc_calls w" and "tmpdir w1 = tmpdir w" and "environ w1 = environ w"
    and "p \<noteq> []" and "read_error up = None"
proof -
  let ?suffix = "if splitext_ext (filename up) \<noteq> [] then splitext_ext (filename up) else ''.wav''"
  have suf: "CHR ''/'' \<notin> set ?suffix"
    using splitext_ext_no_slash[of "filename up"] by simp
  obtain r w0 where nt: "NamedTemporaryFile ?suffix ''ref_'' w = (r, w0)"
    by (cases "NamedTemporaryFile ?suffix ''ref_'' w")
  from assms nt obtain q where r: "r = Inr q"
    by (cases r) (auto simp: save_upload_tempfile_def Let_def)
  from assms nt r have pq: "q = p" and err: "read_error up = None"
    and w1: "w1 = w0\<lparr>files := (files w0)(p \<mapsto> content up)\<rparr>"
    by (auto simp: save_upload_tempfile_def Let_def copy_loop_eq split: option.splits)
  note ok = NamedTemporaryFile_ok[OF nt[unfolded r pq]]
  show "files w p = None" by (rule ok(1))
  show "files w1 = (files w)(p \<mapsto> content up)" by (simp add: w1 ok(2))
  show "\<exists>n \<in> set (names w). \<exists>suf. CHR ''/'' \<notin> set suf \<and> p = path_join (tmpdir w) (''ref_'' @ n @ suf)"
    using ok(3) suf by blast
  show "ivc_calls w1 = ivc_calls w" by (simp add: w1 ok(4))
  show "tmpdir w1 = tmpdir w" by (simp add: w1 ok(5))
  show "environ w1 = environ w" by (simp add: w1 ok(6))
  show "p \<noteq> []" using ok(3) path_join_nonempty by fastforce
  show "read_error up = None" by (rule err)
qed

subsection \<open>The stages of the handler\<close>

lemma save_reference_ok:
  assumes "save_reference up maxb w = (Inr p, w1)"
  shows "save_upload_tempfile up w = (Inr p, w1)" and "int (length (content up)) \<le> maxb"
    and "files w1 p = Some (content up)"
proof -
  obtain r w0 where su: "save_upload_tempfile up w = (r, w0)"
    by (cases "save_upload_tempfile up w")
  from assms su obtain q where r: "r = Inr q"
    by (cases r) (auto simp: save_reference_def)
  have f: "files w0 q = Some (content up)"
    using save_upload_ok(2)[OF su[unfolded r]] by simp
  from assms su r f have "q = p \<and> w0 = w1 \<and> int (length (content up)) \<le> maxb"
    by (auto simp: save_reference_def getsize_def split: if_splits)
  then show "save_upload_tempfile up w = (Inr p, w1)" and "int (length (content up)) \<le> maxb"
    and "files w1 p = Some (content up)"
    using su r f by auto
qed

lemma save_reference_eq:
  assumes "save_upload_tempfile up w = (Inr p, w1)"
  shows "save_reference up maxb w =
           (if int (length (content up)) > maxb
            then (Inl (HTTPException 400 ''Reference file too large''), remove_file (Some p) w1)
            else (Inr p, w1))"
  using assms save_upload_ok(2)[OF assms]
  by (simp add: save_reference_def getsize_def)

lemma remove_file_gone:
  "p \<noteq> [] \<Longrightarrow> files (remove_file (Some p) w) p = None"
  by (simp add: remove_file_def)

lemma remove_file_calls: "ivc_calls (remove_file path w) = ivc_calls w"
  by (simp add: remove_file_def split: option.splits)

text \<open>Once both files exist the handler's answer is decided by the second try block.\<close>

lemma handler_after_alloc:
  assumes "x_api_key = BACKEND_ACCESS_KEY cfg"
    and "MAX_REF_BYTES w = Inr maxb"
    and "save_reference up maxb w = (Inr ref_path, w1)"
    and "NamedTemporaryFile ''.mp3'' ''out_'' w1 = (Inr out_path, w2)"
  shows "synthesize_endpoint cfg prov up text x_api_key w =
           (case clone_and_synthesize prov text ref_path out_path w2 of
              (Inl e, w3) \<Rightarrow>
                (Inl (HTTPException 500 (''TTS error: '' @ exn_str e)), [ref_path, out_path], w3)
            | (Inr resp, w3) \<Rightarrow> (Inr resp, [ref_path, out_path], w3))"
  using assms by (simp add: synthesize_endpoint_def)

lemma alloc_keeps_reference:
  assumes "save_reference up maxb w = (Inr ref_path, w1)"
    and "NamedTemporaryFile ''.mp3'' ''out_'' w1 = (Inr out_path, w2)"
  shows "ref_path \<noteq> out_path" and "files w2 ref_path = Some (content up)"
    and "files w2 out_path = Some []"
proof -
  have a: "files w1 ref_path = Some (content up)" by (rule save_reference_ok(3)[OF assms(1)])
  have b: "files w1 out_path = None" by (rule NamedTemporaryFile_ok(1)[OF assms(2)])
  show ne: "ref_path \<noteq> out_path" using a b by auto
  show "files w2 ref_path = Some (content up)"
    using NamedTemporaryFile_ok(2)[OF assms(2)] a ne by simp
  show "files w2 out_path = Some []"
    using NamedTemporaryFile_ok(2)[OF assms(2)] by simp
qed

subsection \<open>The sample data evaluated\<close>

lemmas demo_defs =
  demo_env_def demo_cfg_def demo_world_def upload_500k_def upload_10mib_def upload_12mb_def
  provider_ok_def provider_99_def provider_clone_fails_def provider_stream_fails_def
  demo_request_def demo_runtime_def

lemma demo_max: "MAX_REF_BYTES demo_world = Inr 10485760"
  by (simp add: MAX_REF_BYTES_def demo_world_def demo_env_def)

lemma demo_suffix: "splitext_ext ''voice.wav'' = ''.wav''"
  by (simp add: splitext_ext_def basename_def Let_def)

lemma demo_save:
  "save_upload_tempfile \<lparr>filename = ''voice.wav'', content = data, read_error = None\<rparr> demo_world =
     (Inr ''/tmp/ref_k3x9aq2_.wav'',
      demo_world\<lparr>files := [''/tmp/ref_k3x9aq2_.wav'' \<mapsto> data],
                  names := [''p0m4zz7w'', ''k3x9aq2_'', ''h8h8h8h8'', ''c7d1e5f0'']\<rparr>)"
  by (simp add: save_upload_tempfile_def demo_suffix NamedTemporaryFile_def path_join_def
      copy_loop_eq demo_world_def Let_def)

lemmas run_defs =
  post_synthesize_def parse_form_def TemporaryFile_def spool_max_size_def validated_def
  synthesize_endpoint_def save_reference_def save_upload_tempfile_def
  NamedTemporaryFile_def copy_loop_eq getsize_def remove_file_def clone_and_synthesize_def
  create_voice_from_reference_def synthesize_text_to_file_def too_small_def write_chunks_eq
  MAX_REF_BYTES_def path_join_def demo_suffix clone_name_of_def basename_def
  StreamingResponse_def Let_def

lemma demo_parse:
  "parse_form (demo_request key upload_500k) demo_world = (None, demo_world)"
  by (simp add: parse_form_def demo_request_def upload_500k_def spool_max_size_def)

text \<open>
  For an accepted request with all three parameters the reply is the handler's result as
  the framework renders it.
\<close>

lemma reply_of_handler:
  assumes "text \<noteq> []"
    and "parse_form \<lparr>header_x_api_key = Some key, form_ref_audio = Some up,
            form_text = Some text, parser_refusal = None\<rparr> w0 = (None, w)"
  shows "fst (post_synthesize cfg prov
                \<lparr>header_x_api_key = Some key, form_ref_audio = Some up,
                 form_text = Some text, parser_refusal = None\<rparr> w0) =
           (case fst (synthesize_endpoint cfg prov up text key w) of
              Inr resp \<Rightarrow> Streamed resp
            | Inl (HTTPException s d) \<Rightarrow> ErrorReply s d
            | Inl (PyException c m) \<Rightarrow> ServerError (PyException c m))"
  using assms
  by (cases "synthesize_endpoint cfg prov up text key w")
    (auto simp: post_synthesize_def validated_def split: sum.splits exn.splits)

subsection \<open>The size limit\<close>

text \<open>
  C1. A request with the right key whose saved reference exceeds the ceiling should end
  with status 400 and detail "Reference file too large", the reference file released at
  once. The handler raises that 400 inside the first \<^verbatim>\<open>try\<close>, whose
  \<^verbatim>\<open>except Exception\<close> catches it and raises a 500 in its place: for a 12 MB upload under
  the default ceiling the reply is 500, its detail the caught exception's text behind
  "Failed to save reference: ". The file is removed as claimed.
\<close>

theorem oversize_reference_is_500:
  "fst (post_synthesize demo_cfg provider_ok (demo_request (Some ''secret'') upload_12mb) demo_world)
     = ErrorReply 500 ''Failed to save reference: 400: Reference file too large''
   \<and> files (snd (post_synthesize demo_cfg provider_ok (demo_request (Some ''secret'') upload_12mb)
        demo_world)) ''/tmp/ref_k3x9aq2_.wav'' = None"
  by (simp add: run_defs demo_defs show_nat_400)

lemma demo_out:
  "NamedTemporaryFile ''.mp3'' ''out_''
     (demo_world\<lparr>files := [''/tmp/ref_k3x9aq2_.wav'' \<mapsto> data],
                  names := [''p0m4zz7w'', ''k3x9aq2_'', ''h8h8h8h8'', ''c7d1e5f0'']\<rparr>) =
     (Inr ''/tmp/out_p0m4zz7w.mp3'',
      demo_world\<lparr>files := [''/tmp/ref_k3x9aq2_.wav'' \<mapsto> data, ''/tmp/out_p0m4zz7w.mp3'' \<mapsto> []],
                  names := [''k3x9aq2_'', ''h8h8h8h8'', ''c7d1e5f0'']\<rparr>)"
  by (simp add: NamedTemporaryFile_def path_join_def demo_world_def Let_def)

lemma demo_clone_name: "clone_name_of ''/tmp/ref_k3x9aq2_.wav'' = ''ref_clone_ref_k3x9aq2_.wav''"
  by (simp add: clone_name_of_def basename_def)

lemma clone_and_synthesize_calls:
  assumes "files w2 ref_path = Some audio"
  shows "ivc_calls (snd (clone_and_synthesize prov text ref_path out_path w2)) =
           ivc_calls w2 @ [(clone_name_of ref_path, audio)]"
  using assms
  by (auto simp: clone_and_synthesize_def create_voice_from_reference_def
      synthesize_text_to_file_def Let_def split: sum.splits prod.splits option.splits)

lemma handler_after_alloc_parts:
  assumes "x_api_key = BACKEND_ACCESS_KEY cfg"
    and "MAX_REF_BYTES w = Inr maxb"
    and "save_reference up maxb w = (Inr ref_path, w1)"
    and "NamedTemporaryFile ''.mp3'' ''out_'' w1 = (Inr out_path, w2)"
  shows "fst (synthesize_endpoint cfg prov up text x_api_key w) =
           (case fst (clone_and_synthesize prov text ref_path out_path w2) of
              Inl e \<Rightarrow> Inl (HTTPException 500 (''TTS error: '' @ exn_str e))
            | Inr resp \<Rightarrow> Inr resp)"
    and "fst (snd (synthesize_endpoint cfg prov up text x_api_key w)) = [ref_path, out_path]"
    and "snd (snd (synthesize_endpoint cfg prov up text x_api_key w)) =
           snd (clone_and_synthesize prov text ref_path out_path w2)"
  by (auto simp: handler_after_alloc[OF assms] split: prod.splits sum.splits)

lemma handler_rejects_oversize:
  assumes "x_api_key = BACKEND_ACCESS_KEY cfg"
    and "MAX_REF_BYTES w = Inr maxb"
    and "save_upload_tempfile up w = (Inr ref_path, w1)"
    and "maxb < int (length (content up))"
  shows "synthesize_endpoint cfg prov up text x_api_key w =
           (Inl (HTTPException 500 (''Failed to save reference: '' @
                   exn_str (HTTPException 400 ''Reference file too large''))),
            [], remove_file (Some ref_path) w1)"
  using assms by (simp add: synthesize_endpoint_def save_reference_eq[OF assms(3)])

text \<open>
  C9. The comparison with the ceiling is strict. For a request with the right key whose
  upload was saved, a reference of at most the ceiling, so also one of exactly the ceiling,
  leaves the first \<^verbatim>\<open>try\<close> with its path and, once the output file is allocated, is sent to
  the provider's clone call; a reference above the ceiling is rejected with an error reply
  and no clone call is made.
\<close>

theorem size_limit_is_strict:
  assumes "x_api_key = BACKEND_ACCESS_KEY cfg"
    and "MAX_REF_BYTES w = Inr maxb"
    and "save_upload_tempfile up w = (Inr ref_path, w1)"
  shows "files w1 ref_path = Some (content up) \<and>
         (int (length (content up)) \<le> maxb \<longrightarrow>
            save_reference up maxb w = (Inr ref_path, w1) \<and>
            (\<forall>out_path w2. NamedTemporaryFile ''.mp3'' ''out_'' w1 = (Inr out_path, w2) \<longrightarrow>
               ivc_calls (snd (snd (synthesize_endpoint cfg prov up text x_api_key w))) =
                 ivc_calls w @ [(clone_name_of ref_path, content up)])) \<and>
         (maxb < int (length (content up)) \<longrightarrow>
            (\<exists>e. save_reference up maxb w = (Inl e, remove_file (Some ref_path) w1)) \<and>
            (\<exists>d. fst (synthesize_endpoint cfg prov up text x_api_key w) = Inl (HTTPException 500 d)) \<and>
            ivc_calls (snd (snd (synthesize_endpoint cfg prov up text x_api_key w))) = ivc_calls w)"
proof (intro conjI impI allI)
  show "files w1 ref_path = Some (content up)"
    using save_upload_ok(2)[OF assms(3)] by simp
next
  assume le: "int (length (content up)) \<le> maxb"
  then show sr: "save_reference up maxb w = (Inr ref_path, w1)"
    by (simp add: save_reference_eq[OF assms(3)])
  fix out_path w2
  assume nt: "NamedTemporaryFile ''.mp3'' ''out_'' w1 = (Inr out_path, w2)"
  have calls: "ivc_calls w2 = ivc_calls w"
    using NamedTemporaryFile_ok(4)[OF nt] save_upload_ok(4)[OF assms(3)] by simp
  have kept: "files w2 ref_path = Some (content up)"
    by (rule alloc_keeps_reference(2)[OF sr nt])
  have "ivc_calls (snd (clone_and_synthesize prov text ref_path out_path w2)) =
          ivc_calls w @ [(clone_name_of ref_path, content up)]"
    using clone_and_synthesize_calls[OF kept] calls by simp
  then show "ivc_calls (snd (snd (synthesize_endpoint cfg prov up text x_api_key w))) =
               ivc_calls w @ [(clone_name_of ref_path, content up)]"
    by (simp add: handler_after_alloc_parts(3)[OF assms(1,2) sr nt])
next
  assume gt: "maxb < int (length (content up))"
  note h = handler_rejects_oversize[OF assms gt, of prov "text"]
  show "\<exists>e. save_reference up maxb w = (Inl e, remove_file (Some ref_path) w1)"
    using gt by (simp add: save_reference_eq[OF assms(3)])
  show "\<exists>d. fst (synthesize_endpoint cfg prov up text x_api_key w) = Inl (HTTPException 500 d)"
    by (simp add: h)
  show "ivc_calls (snd (snd (synthesize_endpoint cfg prov up text x_api_key w))) = ivc_calls w"
    using save_upload_ok(4)[OF assms(3)] by (simp add: h remove_file_calls)
qed

theorem size_limit_is_strict_witness:
  "''secret'' = BACKEND_ACCESS_KEY demo_cfg \<and>
   MAX_REF_BYTES demo_world = Inr 10485760 \<and>
   int (length (content upload_10mib)) = 10485760 \<and>
   ivc_calls (snd (snd (synthesize_endpoint demo_cfg provider_ok upload_10mib ''hello world''
       ''secret'' demo_world))) = [(''ref_clone_ref_k3x9aq2_.wav'', content upload_10mib)] \<and>
   (10485760::int) < int (length (content upload_12mb)) \<and>
   ivc_calls (snd (snd (synthesize_endpoint demo_cfg provider_ok upload_12mb ''hello world''
       ''secret'' demo_world))) = []"
proof -
  have k: "''secret'' = BACKEND_ACCESS_KEY demo_cfg" by (simp add: demo_cfg_def)
  have s10: "save_upload_tempfile upload_10mib demo_world = (Inr ''/tmp/ref_k3x9aq2_.wav'',
      demo_world\<lparr>files := [''/tmp/ref_k3x9aq2_.wav'' \<mapsto> replicate 10485760 7],
                  names := [''p0m4zz7w'', ''k3x9aq2_'', ''h8h8h8h8'', ''c7d1e5f0'']\<rparr>)"
    unfolding upload_10mib_def by (rule demo_save)
  have s12: "save_upload_tempfile upload_12mb demo_world = (Inr ''/tmp/ref_k3x9aq2_.wav'',
      demo_world\<lparr>files := [''/tmp/ref_k3x9aq2_.wav'' \<mapsto> replicate 12000000 7],
                  names := [''p0m4zz7w'', ''k3x9aq2_'', ''h8h8h8h8'', ''c7d1e5f0'']\<rparr>)"
    unfolding upload_12mb_def by (rule demo_save)
  have l10: "int (length (content upload_10mib)) = 10485760" by (simp add: upload_10mib_def)
  have l12: "(10485760::int) < int (length (content upload_12mb))" by (simp add: upload_12mb_def)
  have c: "ivc_calls demo_world = []" by (simp add: demo_world_def)
  from size_limit_is_strict[OF k demo_max s10, of provider_ok "''hello world''"] l10 demo_out
  have a: "ivc_calls (snd (snd (synthesize_endpoint demo_cfg provider_ok upload_10mib ''hello world''
       ''secret'' demo_world))) = [(''ref_clone_ref_k3x9aq2_.wav'', content upload_10mib)]"
    by (simp add: demo_clone_name c)
  from size_limit_is_strict[OF k demo_max s12, of provider_ok "''hello world''"] l12
  have b: "ivc_calls (snd (snd (synthesize_endpoint demo_cfg provider_ok upload_12mb ''hello world''
       ''secret'' demo_world))) = []"
    by (simp add: c)
  show ?thesis using k demo_max l10 a l12 b by simp
qed

subsection \<open>Scheduling the cleanup\<close>

text \<open>
  C2. Every temporary file a request creates should be scheduled for deletion exactly once,
  whichever stage failed. The handler hands both paths to the background tasks (lines
  146-147) and its comment at line 162 counts on them to delete the files after an error.
  But the tasks run only after a returned response. When the clone call fails the handler
  raises, the reply is made from the exception, and the two tasks it registered are
  dropped: after the 500 the reference file and the output file are both still on disk.
  After a successful request both are gone.
\<close>

theorem failed_request_leaves_files:
  "fst (post_synthesize demo_cfg provider_clone_fails (demo_request (Some ''secret'') upload_500k)
          demo_world) = ErrorReply 500 ''TTS error: voice sample too short'' \<and>
   fst (snd (synthesize_endpoint demo_cfg provider_clone_fails upload_500k ''hello world''
               ''secret'' demo_world)) = [''/tmp/ref_k3x9aq2_.wav'', ''/tmp/out_p0m4zz7w.mp3''] \<and>
   files (snd (post_synthesize demo_cfg provider_clone_fails
                 (demo_request (Some ''secret'') upload_500k) demo_world))
     ''/tmp/ref_k3x9aq2_.wav'' = Some (content upload_500k) \<and>
   files (snd (post_synthesize demo_cfg provider_clone_fails
                 (demo_request (Some ''secret'') upload_500k) demo_world))
     ''/tmp/out_p0m4zz7w.mp3'' = Some [] \<and>
   files (snd (post_synthesize demo_cfg provider_ok
                 (demo_request (Some ''secret'') upload_500k) demo_world))
     ''/tmp/ref_k3x9aq2_.wav'' = None \<and>
   files (snd (post_synthesize demo_cfg provider_ok
                 (demo_request (Some ''secret'') upload_500k) demo_world))
     ''/tmp/out_p0m4zz7w.mp3'' = None"
  by (simp add: run_defs demo_defs)

subsection \<open>Authorization\<close>




subsection \<open>The check after synthesis and provider failures\<close>

lemma synthesize_text_to_file_done:
  assumes "tts_convert prov text vid ''eleven_multilingual_v2'' OUTPUT_FORMAT = Inr (chunks, None)"
  shows "synthesize_text_to_file prov vid text out_path w =
           (if length (concat chunks) < 100
            then Inl (PyException ''RuntimeError'' ''Synthesized file is empty or too small'')
            else Inr out_path,
            w\<lparr>files := (files w)(out_path \<mapsto> concat chunks)\<rparr>)"
  using assms by (simp add: synthesize_text_to_file_def too_small_def write_chunks_eq Let_def)

lemma clone_and_synthesize_clone_fails:
  assumes "files w2 ref_path = Some audio"
    and "ivc_create prov (clone_name_of ref_path) audio = Inl e"
  shows "fst (clone_and_synthesize prov text ref_path out_path w2) = Inl e"
  using assms by (simp add: clone_and_synthesize_def create_voice_from_reference_def Let_def)

lemma clone_and_synthesize_cloned:
  assumes "files w2 ref_path = Some audio"
    and "ivc_create prov (clone_name_of ref_path) audio = Inr vid"
  shows "clone_and_synthesize prov text ref_path out_path w2 =
           (case synthesize_text_to_file prov vid text out_path
                   (w2\<lparr>ivc_calls := ivc_calls w2 @ [(clone_name_of ref_path, audio)]\<rparr>) of
              (Inl e, w3) \<Rightarrow> (Inl e, w3)
            | (Inr p, w3) \<Rightarrow>
                (case files w3 out_path of
                   None \<Rightarrow>
                     (Inl (PyException ''FileNotFoundError''
                             (''[Errno 2] No such file or directory: '' @ py_repr out_path)), w3)
                 | Some file_like \<Rightarrow>
                     (Inr (StreamingResponse file_like ''audio/mpeg'' tts_headers), w3)))"
  using assms by (simp add: clone_and_synthesize_def create_voice_from_reference_def Let_def)

text \<open>
  C10. The threshold of the check after synthesis is 100 bytes. The condition of line 93
  holds exactly for a missing file and for a file of at most 99 bytes; and when the
  provider's chunks have all been written, \<open>synthesize_text_to_file\<close> returns the output
  path when they add up to 100 bytes or more and raises the "empty or too small" error
  when they add up to 99 bytes or fewer.
\<close>

theorem output_threshold_is_100:
  assumes "tts_convert prov text vid ''eleven_multilingual_v2'' OUTPUT_FORMAT = Inr (chunks, None)"
  shows "(too_small w p \<longleftrightarrow> files w p = None \<or> (\<exists>b. files w p = Some b \<and> length b \<le> 99)) \<and>
         (100 \<le> length (concat chunks) \<longrightarrow>
            fst (synthesize_text_to_file prov vid text out_path w) = Inr out_path) \<and>
         (length (concat chunks) \<le> 99 \<longrightarrow>
            fst (synthesize_text_to_file prov vid text out_path w) =
              Inl (PyException ''RuntimeError'' ''Synthesized file is empty or too small''))"
proof (intro conjI impI)
  show "too_small w p \<longleftrightarrow> files w p = None \<or> (\<exists>b. files w p = Some b \<and> length b \<le> 99)"
    by (cases "files w p") (auto simp: too_small_def)
next
  assume "100 \<le> length (concat chunks)"
  then show "fst (synthesize_text_to_file prov vid text out_path w) = Inr out_path"
    by (simp add: synthesize_text_to_file_done[OF assms])
next
  assume "length (concat chunks) \<le> 99"
  then show "fst (synthesize_text_to_file prov vid text out_path w) =
               Inl (PyException ''RuntimeError'' ''Synthesized file is empty or too small'')"
    by (simp add: synthesize_text_to_file_done[OF assms])
qed

theorem output_threshold_is_100_witness:
  "tts_convert provider_ok ''hello world'' ''voice-1'' ''eleven_multilingual_v2'' OUTPUT_FORMAT =
     Inr ([replicate 60 1, [], replicate 40 2], None) \<and>
   length (concat [replicate 60 (1::8 word), [], replicate 40 2]) = 100 \<and>
   fst (synthesize_text_to_file provider_ok ''voice-1'' ''hello world'' ''/tmp/out_p0m4zz7w.mp3''
          demo_world) = Inr ''/tmp/out_p0m4zz7w.mp3'' \<and>
   tts_convert provider_99 ''hello world'' ''voice-1'' ''eleven_multilingual_v2'' OUTPUT_FORMAT =
     Inr ([replicate 60 1, [], replicate 39 2], None) \<and>
   length (concat [replicate 60 (1::8 word), [], replicate 39 2]) = 99 \<and>
   fst (synthesize_text_to_file provider_99 ''voice-1'' ''hello world'' ''/tmp/out_p0m4zz7w.mp3''
          demo_world) = Inl (PyException ''RuntimeError'' ''Synthesized file is empty or too small'') \<and>
   too_small demo_world ''/tmp/out_p0m4zz7w.mp3''"
proof -
  have a: "tts_convert provider_ok ''hello world'' ''voice-1'' ''eleven_multilingual_v2'' OUTPUT_FORMAT =
     Inr ([replicate 60 1, [], replicate 40 2], None)" by (simp add: provider_ok_def)
  have b: "tts_convert provider_99 ''hello world'' ''voice-1'' ''eleven_multilingual_v2'' OUTPUT_FORMAT =
     Inr ([replicate 60 1, [], replicate 39 2], None)" by (simp add: provider_99_def)
  have f: "files demo_world ''/tmp/out_p0m4zz7w.mp3'' = None" by (simp add: demo_world_def)
  show ?thesis
    using output_threshold_is_100[OF a, of demo_world "''/tmp/out_p0m4zz7w.mp3''" "''/tmp/out_p0m4zz7w.mp3''"]
      output_threshold_is_100[OF b, of demo_world "''/tmp/out_p0m4zz7w.mp3''" "''/tmp/out_p0m4zz7w.mp3''"]
      a b f
    by simp
qed

lemma demo_save_reference:
  assumes "int (length data) \<le> 10485760"
  shows "save_reference \<lparr>filename = ''voice.wav'', content = data, read_error = None\<rparr> 10485760
           demo_world =
         (Inr ''/tmp/ref_k3x9aq2_.wav'',
          demo_world\<lparr>files := [''/tmp/ref_k3x9aq2_.wav'' \<mapsto> data],
                      names := [''p0m4zz7w'', ''k3x9aq2_'', ''h8h8h8h8'', ''c7d1e5f0'']\<rparr>)"
  using assms by (simp add: save_reference_eq[OF demo_save])

text \<open>
  C5. When the chunk sequence ends without an error and the chunks written add up to fewer
  than 100 bytes, \<open>synthesize_text_to_file\<close> raises the "empty or too small" error, the
  handler turns it into a 500 whose detail is "TTS error: " and that message, and the
  reply is not a 200: for a request the framework passes to the handler, in the world
  that reading the form has left, the reply is that 500.
\<close>

theorem small_output_is_500:
  assumes "x_api_key = BACKEND_ACCESS_KEY cfg"
    and "MAX_REF_BYTES w = Inr maxb"
    and "save_reference up maxb w = (Inr ref_path, w1)"
    and "NamedTemporaryFile ''.mp3'' ''out_'' w1 = (Inr out_path, w2)"
    and "ivc_create prov (clone_name_of ref_path) (content up) = Inr vid"
    and "tts_convert prov text vid ''eleven_multilingual_v2'' OUTPUT_FORMAT = Inr (chunks, None)"
    and "length (concat chunks) < 100"
  shows "fst (synthesize_text_to_file prov vid text out_path w3) =
           Inl (PyException ''RuntimeError'' ''Synthesized file is empty or too small'') \<and>
         fst (synthesize_endpoint cfg prov up text x_api_key w) =
           Inl (HTTPException 500 ''TTS error: Synthesized file is empty or too small'') \<and>
         (\<forall>w0. text \<noteq> [] \<and>
              parse_form
                  \<lparr>header_x_api_key = Some x_api_key, form_ref_audio = Some up,
                   form_text = Some text, parser_refusal = None\<rparr> w0 = (None, w) \<longrightarrow>
            fst (post_synthesize cfg prov
                  \<lparr>header_x_api_key = Some x_api_key, form_ref_audio = Some up,
                   form_text = Some text, parser_refusal = None\<rparr> w0) =
              ErrorReply 500 ''TTS error: Synthesized file is empty or too small'')"
proof -
  have kept: "files w2 ref_path = Some (content up)"
    by (rule alloc_keeps_reference(2)[OF assms(3,4)])
  have st: "fst (synthesize_text_to_file prov vid text out_path w') =
           Inl (PyException ''RuntimeError'' ''Synthesized file is empty or too small'')" for w'
    using assms(7) by (simp add: synthesize_text_to_file_done[OF assms(6)])
  have cs: "fst (clone_and_synthesize prov text ref_path out_path w2) =
           Inl (PyException ''RuntimeError'' ''Synthesized file is empty or too small'')"
    using assms(7)
    by (simp add: clone_and_synthesize_cloned[OF kept assms(5)]
        synthesize_text_to_file_done[OF assms(6)])
  have h: "fst (synthesize_endpoint cfg prov up text x_api_key w) =
           Inl (HTTPException 500 ''TTS error: Synthesized file is empty or too small'')"
    by (simp add: handler_after_alloc_parts(1)[OF assms(1-4)] cs)
  have rp: "\<forall>w0. text \<noteq> [] \<and>
              parse_form
                  \<lparr>header_x_api_key = Some x_api_key, form_ref_audio = Some up,
                   form_text = Some text, parser_refusal = None\<rparr> w0 = (None, w) \<longrightarrow>
            fst (post_synthesize cfg prov
                  \<lparr>header_x_api_key = Some x_api_key, form_ref_audio = Some up,
                   form_text = Some text, parser_refusal = None\<rparr> w0) =
              ErrorReply 500 ''TTS error: Synthesized file is empty or too small''"
  proof (intro allI impI)
    fix w0
    assume a: "text \<noteq> [] \<and>
              parse_form
                  \<lparr>header_x_api_key = Some x_api_key, form_ref_audio = Some up,
                   form_text = Some text, parser_refusal = None\<rparr> w0 = (None, w)"
    from a have t: "text \<noteq> []" by simp
    from a have p: "parse_form
                  \<lparr>header_x_api_key = Some x_api_key, form_ref_audio = Some up,
                   form_text = Some text, parser_refusal = None\<rparr> w0 = (None, w)" by simp
    show "fst (post_synthesize cfg prov
                  \<lparr>header_x_api_key = Some x_api_key, form_ref_audio = Some up,
                   form_text = Some text, parser_refusal = None\<rparr> w0) =
              ErrorReply 500 ''TTS error: Synthesized file is empty or too small''"
      by (simp add: reply_of_handler[OF t p] h)
  qed
  from st h rp show ?thesis by blast
qed

theorem small_output_is_500_witness:
  "''secret'' = BACKEND_ACCESS_KEY demo_cfg \<and>
   MAX_REF_BYTES demo_world = Inr 10485760 \<and>
   fst (save_reference upload_500k 10485760 demo_world) = Inr ''/tmp/ref_k3x9aq2_.wav'' \<and>
   ivc_create provider_99 (clone_name_of ''/tmp/ref_k3x9aq2_.wav'') (content upload_500k) =
     Inr ''voice-1'' \<and>
   tts_convert provider_99 ''hello world'' ''voice-1'' ''eleven_multilingual_v2'' OUTPUT_FORMAT =
     Inr ([replicate 60 1, [], replicate 39 2], None) \<and>
   length (concat [replicate 60 (1::8 word), [], replicate 39 2]) < 100 \<and>
   fst (post_synthesize demo_cfg provider_99 (demo_request (Some ''secret'') upload_500k) demo_world) =
     ErrorReply 500 ''TTS error: Synthesized file is empty or too small''"
proof -
  have k: "''secret'' = BACKEND_ACCESS_KEY demo_cfg" by (simp add: demo_cfg_def)
  have sr: "save_reference upload_500k 10485760 demo_world = (Inr ''/tmp/ref_k3x9aq2_.wav'',
      demo_world\<lparr>files := [''/tmp/ref_k3x9aq2_.wav'' \<mapsto> replicate 500000 7],
                  names := [''p0m4zz7w'', ''k3x9aq2_'', ''h8h8h8h8'', ''c7d1e5f0'']\<rparr>)"
    unfolding upload_500k_def by (rule demo_save_reference) simp
  have c: "ivc_create provider_99 (clone_name_of ''/tmp/ref_k3x9aq2_.wav'') (content upload_500k) =
     Inr ''voice-1''" by (simp add: provider_99_def)
  have t: "tts_convert provider_99 ''hello world'' ''voice-1'' ''eleven_multilingual_v2'' OUTPUT_FORMAT =
     Inr ([replicate 60 1, [], replicate 39 2], None)" by (simp add: provider_99_def)
  have l: "length (concat [replicate 60 (1::8 word), [], replicate 39 2]) < 100" by simp
  have "fst (post_synthesize demo_cfg provider_99 (demo_request (Some ''secret'') upload_500k)
           demo_world) = ErrorReply 500 ''TTS error: Synthesized file is empty or too small''"
    using small_output_is_500[OF k demo_max sr demo_out c t l, of demo_world]
      demo_parse[of "Some ''secret''"]
    by (elim conjE allE[of _ demo_world]) (simp add: demo_request_def)
  then show ?thesis
    using k c t l by (simp add: sr demo_max)
qed

lemma synthesize_text_to_file_raises:
  "tts_convert prov text vid ''eleven_multilingual_v2'' OUTPUT_FORMAT = Inl e \<Longrightarrow>
     fst (synthesize_text_to_file prov vid text out_path w) = Inl e"
  "tts_convert prov text vid ''eleven_multilingual_v2'' OUTPUT_FORMAT = Inr (chunks, Some e) \<Longrightarrow>
     fst (synthesize_text_to_file prov vid text out_path w) = Inl e"
  by (simp_all add: synthesize_text_to_file_def Let_def)

lemma clone_and_synthesize_synth_fails:
  assumes "files w2 ref_path = Some audio"
    and "ivc_create prov (clone_name_of ref_path) audio = Inr vid"
    and "\<And>w'. fst (synthesize_text_to_file prov vid text out_path w') = Inl e"
  shows "fst (clone_and_synthesize prov text ref_path out_path w2) = Inl e"
proof -
  let ?w = "w2\<lparr>ivc_calls := ivc_calls w2 @ [(clone_name_of ref_path, audio)]\<rparr>"
  obtain r w3 where s: "synthesize_text_to_file prov vid text out_path ?w = (r, w3)"
    by (cases "synthesize_text_to_file prov vid text out_path ?w")
  with assms(3)[of ?w] have "r = Inl e" by simp
  with s show ?thesis
    by (simp add: clone_and_synthesize_cloned[OF assms(1,2)])
qed

text \<open>
  C6. Once the request is authorized, the reference is saved within the ceiling and the
  output file is allocated, every exception \<open>e\<close> of the provider ends the request with a
  500 whose detail is "TTS error: " followed by the text of \<open>e\<close>: whether the clone call
  raises it, the synthesis call raises it at once, or the chunk iteration raises it part
  way. For a request the framework passes to the handler, in the world that reading the
  form has left, that 500 is the reply.
\<close>

theorem provider_failure_is_500:
  assumes "x_api_key = BACKEND_ACCESS_KEY cfg"
    and "MAX_REF_BYTES w = Inr maxb"
    and "save_reference up maxb w = (Inr ref_path, w1)"
    and "NamedTemporaryFile ''.mp3'' ''out_'' w1 = (Inr out_path, w2)"
    and "ivc_create prov (clone_name_of ref_path) (content up) = Inl e \<or>
         (\<exists>vid. ivc_create prov (clone_name_of ref_path) (content up) = Inr vid \<and>
            (tts_convert prov text vid ''eleven_multilingual_v2'' OUTPUT_FORMAT = Inl e \<or>
             (\<exists>chunks. tts_convert prov text vid ''eleven_multilingual_v2'' OUTPUT_FORMAT =
                        Inr (chunks, Some e))))"
  shows "fst (synthesize_endpoint cfg prov up text x_api_key w) =
           Inl (HTTPException 500 (''TTS error: '' @ exn_str e)) \<and>
         (\<forall>w0. text \<noteq> [] \<and>
              parse_form
                  \<lparr>header_x_api_key = Some x_api_key, form_ref_audio = Some up,
                   form_text = Some text, parser_refusal = None\<rparr> w0 = (None, w) \<longrightarrow>
            fst (post_synthesize cfg prov
                  \<lparr>header_x_api_key = Some x_api_key, form_ref_audio = Some up,
                   form_text = Some text, parser_refusal = None\<rparr> w0) =
              ErrorReply 500 (''TTS error: '' @ exn_str e))"
proof -
  have kept: "files w2 ref_path = Some (content up)"
    by (rule alloc_keeps_reference(2)[OF assms(3,4)])
  have cs: "fst (clone_and_synthesize prov text ref_path out_path w2) = Inl e"
    using assms(5)
  proof (elim disjE exE conjE)
    assume "ivc_create prov (clone_name_of ref_path) (content up) = Inl e"
    then show ?thesis by (rule clone_and_synthesize_clone_fails[OF kept])
  next
    fix vid
    assume c: "ivc_create prov (clone_name_of ref_path) (content up) = Inr vid"
      and t: "tts_convert prov text vid ''eleven_multilingual_v2'' OUTPUT_FORMAT = Inl e"
    show ?thesis
      by (rule clone_and_synthesize_synth_fails[OF kept c])
        (rule synthesize_text_to_file_raises(1)[OF t])
  next
    fix vid chunks
    assume c: "ivc_create prov (clone_name_of ref_path) (content up) = Inr vid"
      and t: "tts_convert prov text vid ''eleven_multilingual_v2'' OUTPUT_FORMAT =
                Inr (chunks, Some e)"
    show ?thesis
      by (rule clone_and_synthesize_synth_fails[OF kept c])
        (rule synthesize_text_to_file_raises(2)[OF t])
  qed
  have h: "fst (synthesize_endpoint cfg prov up text x_api_key w) =
           Inl (HTTPException 500 (''TTS error: '' @ exn_str e))"
    by (simp add: handler_after_alloc_parts(1)[OF assms(1-4)] cs)
  have rp: "\<forall>w0. text \<noteq> [] \<and>
              parse_form
                  \<lparr>header_x_api_key = Some x_api_key, form_ref_audio = Some up,
                   form_text = Some text, parser_refusal = None\<rparr> w0 = (None, w) \<longrightarrow>
            fst (post_synthesize cfg prov
                  \<lparr>header_x_api_key = Some x_api_key, form_ref_audio = Some up,
                   form_text = Some text, parser_refusal = None\<rparr> w0) =
              ErrorReply 500 (''TTS error: '' @ exn_str e)"
  proof (intro allI impI)
    fix w0
    assume a: "text \<noteq> [] \<and>
              parse_form
                  \<lparr>header_x_api_key = Some x_api_key, form_ref_audio = Some up,
                   form_text = Some text, parser_refusal = None\<rparr> w0 = (None, w)"
    from a have t: "text \<noteq> []" by simp
    from a have p: "parse_form
                  \<lparr>header_x_api_key = Some x_api_key, form_ref_audio = Some up,
                   form_text = Some text, parser_refusal = None\<rparr> w0 = (None, w)" by simp
    show "fst (post_synthesize cfg prov
                  \<lparr>header_x_api_key = Some x_api_key, form_ref_audio = Some up,
                   form_text = Some text, parser_refusal = None\<rparr> w0) =
              ErrorReply 500 (''TTS error: '' @ exn_str e)"
      by (simp add: reply_of_handler[OF t p] h)
  qed
  from h rp show ?thesis by blast
qed

theorem provider_failure_is_500_witness:
  "''secret'' = BACKEND_ACCESS_KEY demo_cfg \<and>
   MAX_REF_BYTES demo_world = Inr 10485760 \<and>
   fst (save_reference upload_500k 10485760 demo_world) = Inr ''/tmp/ref_k3x9aq2_.wav'' \<and>
   ivc_create provider_clone_fails (clone_name_of ''/tmp/ref_k3x9aq2_.wav'') (content upload_500k) =
     Inl (PyException ''ApiError'' ''voice sample too short'') \<and>
   fst (post_synthesize demo_cfg provider_clone_fails (demo_request (Some ''secret'') upload_500k)
          demo_world) = ErrorReply 500 ''TTS error: voice sample too short'' \<and>
   ivc_create provider_stream_fails (clone_name_of ''/tmp/ref_k3x9aq2_.wav'') (content upload_500k) =
     Inr ''voice-1'' \<and>
   tts_convert provider_stream_fails ''hello world'' ''voice-1'' ''eleven_multilingual_v2''
     OUTPUT_FORMAT = Inr ([replicate 60 1], Some (PyException ''ApiError'' ''quota exceeded'')) \<and>
   fst (post_synthesize demo_cfg provider_stream_fails (demo_request (Some ''secret'') upload_500k)
          demo_world) = ErrorReply 500 ''TTS error: quota exceeded''"
proof -
  have k: "''secret'' = BACKEND_ACCESS_KEY demo_cfg" by (simp add: demo_cfg_def)
  have sr: "save_reference upload_500k 10485760 demo_world = (Inr ''/tmp/ref_k3x9aq2_.wav'',
      demo_world\<lparr>files := [''/tmp/ref_k3x9aq2_.wav'' \<mapsto> replicate 500000 7],
                  names := [''p0m4zz7w'', ''k3x9aq2_'', ''h8h8h8h8'', ''c7d1e5f0'']\<rparr>)"
    unfolding upload_500k_def by (rule demo_save_reference) simp
  have c1: "ivc_create provider_clone_fails (clone_name_of ''/tmp/ref_k3x9aq2_.wav'')
      (content upload_500k) = Inl (PyException ''ApiError'' ''voice sample too short'')"
    by (simp add: provider_clone_fails_def)
  have c2: "ivc_create provider_stream_fails (clone_name_of ''/tmp/ref_k3x9aq2_.wav'')
      (content upload_500k) = Inr ''voice-1''"
    by (simp add: provider_stream_fails_def)
  have t2: "tts_convert provider_stream_fails ''hello world'' ''voice-1'' ''eleven_multilingual_v2''
     OUTPUT_FORMAT = Inr ([replicate 60 1], Some (PyException ''ApiError'' ''quota exceeded''))"
    by (simp add: provider_stream_fails_def)
  have d1: "ivc_create provider_clone_fails (clone_name_of ''/tmp/ref_k3x9aq2_.wav'')
        (content upload_500k) = Inl (PyException ''ApiError'' ''voice sample too short'') \<or>
      (\<exists>vid. ivc_create provider_clone_fails (clone_name_of ''/tmp/ref_k3x9aq2_.wav'')
          (content upload_500k) = Inr vid \<and>
         (tts_convert provider_clone_fails ''hello world'' vid ''eleven_multilingual_v2'' OUTPUT_FORMAT =
            Inl (PyException ''ApiError'' ''voice sample too short'') \<or>
          (\<exists>chunks. tts_convert provider_clone_fails ''hello world'' vid ''eleven_multilingual_v2''
              OUTPUT_FORMAT = Inr (chunks, Some (PyException ''ApiError'' ''voice sample too short'')))))"
    using c1 by simp
  have d2: "ivc_create provider_stream_fails (clone_name_of ''/tmp/ref_k3x9aq2_.wav'')
        (content upload_500k) = Inl (PyException ''ApiError'' ''quota exceeded'') \<or>
      (\<exists>vid. ivc_create provider_stream_fails (clone_name_of ''/tmp/ref_k3x9aq2_.wav'')
          (content upload_500k) = Inr vid \<and>
         (tts_convert provider_stream_fails ''hello world'' vid ''eleven_multilingual_v2'' OUTPUT_FORMAT =
            Inl (PyException ''ApiError'' ''quota exceeded'') \<or>
          (\<exists>chunks. tts_convert provider_stream_fails ''hello world'' vid ''eleven_multilingual_v2''
              OUTPUT_FORMAT = Inr (chunks, Some (PyException ''ApiError'' ''quota exceeded'')))))"
    using c2 t2 by blast
  have r1: "fst (post_synthesize demo_cfg provider_clone_fails
                   (demo_request (Some ''secret'') upload_500k) demo_world) =
              ErrorReply 500 ''TTS error: voice sample too short''"
    using provider_failure_is_500[OF k demo_max sr demo_out d1] demo_parse[of "Some ''secret''"]
    by (elim conjE allE[of _ demo_world]) (simp add: demo_request_def)
  have r2: "fst (post_synthesize demo_cfg provider_stream_fails
                   (demo_request (Some ''secret'') upload_500k) demo_world) =
              ErrorReply 500 ''TTS error: quota exceeded''"
    using provider_failure_is_500[OF k demo_max sr demo_out d2] demo_parse[of "Some ''secret''"]
    by (elim conjE allE[of _ demo_world]) (simp add: demo_request_def)
  show ?thesis
    using r1 r2 k c1 c2 t2 by (simp add: sr demo_max)
qed

subsection \<open>The success response\<close>

lemma clone_and_synthesize_success:
  assumes "clone_and_synthesize prov text ref_path out_path w2 = (Inr resp, w3)"
  shows "resp = StreamingResponse (body resp) ''audio/mpeg'' tts_headers"
    and "files w3 out_path = Some (body resp)"
    and "\<exists>vid chunks. tts_convert prov text vid ''eleven_multilingual_v2'' OUTPUT_FORMAT =
            Inr (chunks, None) \<and> body resp = concat chunks \<and> 100 \<le> length (concat chunks)"
  using assms
  by (auto simp: clone_and_synthesize_def create_voice_from_reference_def
      synthesize_text_to_file_def too_small_def write_chunks_eq StreamingResponse_def Let_def
      split: sum.splits prod.splits option.splits if_splits)
    (metis leI)

lemma handler_success:
  assumes "synthesize_endpoint cfg prov up text x_api_key w = (Inr resp, tasks, w')"
  shows "\<exists>ref_path out_path w2. tasks = [ref_path, out_path] \<and>
           clone_and_synthesize prov text ref_path out_path w2 = (Inr resp, w')"
  using assms
  by (auto simp: synthesize_endpoint_def split: if_splits sum.splits prod.splits)


text \<open>
  C8. Whenever the handler returns a response rather than raising, the response has status
  200, media type \<^verbatim>\<open>audio/mpeg\<close> and the one header \<^verbatim>\<open>Content-Disposition\<close> with value
  \<^verbatim>\<open>attachment; filename="tts.mp3"\<close>, so that it is sent with that header and
  \<^verbatim>\<open>Content-Type: audio/mpeg\<close>; its body is the content of the output file, the second of the
  two scheduled paths, which is the provider's chunks in order; and for a request the
  framework passes to the handler, in the world that reading the form has left, the reply
  is that response.
\<close>

theorem success_response:
  assumes "synthesize_endpoint cfg prov up text x_api_key w = (Inr resp, tasks, w')"
  shows "status_code resp = 200 \<and>
         media_type resp = ''audio/mpeg'' \<and>
         headers resp =
           [(''Content-Disposition'', ''attachment; filename='' @ [CHR 0x22] @ ''tts.mp3'' @ [CHR 0x22])] \<and>
         sent_headers resp =
           [(''Content-Disposition'', ''attachment; filename='' @ [CHR 0x22] @ ''tts.mp3'' @ [CHR 0x22]),
            (''Content-Type'', ''audio/mpeg'')] \<and>
         (\<exists>ref_path out_path. tasks = [ref_path, out_path] \<and> files w' out_path = Some (body resp)) \<and>
         (\<exists>vid chunks. tts_convert prov text vid ''eleven_multilingual_v2'' OUTPUT_FORMAT =
            Inr (chunks, None) \<and> body resp = concat chunks) \<and>
         (\<forall>w0. text \<noteq> [] \<and>
              parse_form
                  \<lparr>header_x_api_key = Some x_api_key, form_ref_audio = Some up,
                   form_text = Some text, parser_refusal = None\<rparr> w0 = (None, w) \<longrightarrow>
            fst (post_synthesize cfg prov
                  \<lparr>header_x_api_key = Some x_api_key, form_ref_audio = Some up,
                   form_text = Some text, parser_refusal = None\<rparr> w0) =
              Streamed resp) \<and>
         reply_status (Streamed resp) = 200"
proof -
  from handler_success[OF assms] obtain ref_path out_path w2
    where t: "tasks = [ref_path, out_path]"
      and cs: "clone_and_synthesize prov text ref_path out_path w2 = (Inr resp, w')"
    by blast
  note s = clone_and_synthesize_success[OF cs]
  have r: "resp = \<lparr>status_code = 200, media_type = ''audio/mpeg'',
                    headers = tts_headers, body = body resp\<rparr>"
    using s(1) by (simp add: StreamingResponse_def)
  have st: "status_code resp = 200" by (subst r) simp
  have mt: "media_type resp = ''audio/mpeg''" by (subst r) simp
  have hs: "headers resp = tts_headers" by (subst r) simp
  have sh: "sent_headers resp =
           [(''Content-Disposition'', ''attachment; filename='' @ [CHR 0x22] @ ''tts.mp3'' @ [CHR 0x22]),
            (''Content-Type'', ''audio/mpeg'')]"
    by (simp add: sent_headers_def hs mt tts_headers_def)
  have bd: "\<exists>ref_path out_path. tasks = [ref_path, out_path] \<and> files w' out_path = Some (body resp)"
    using t s(2) by blast
  have ch: "\<exists>vid chunks. tts_convert prov text vid ''eleven_multilingual_v2'' OUTPUT_FORMAT =
            Inr (chunks, None) \<and> body resp = concat chunks"
    using s(3) by blast
  have rp: "\<forall>w0. text \<noteq> [] \<and>
              parse_form
                  \<lparr>header_x_api_key = Some x_api_key, form_ref_audio = Some up,
                   form_text = Some text, parser_refusal = None\<rparr> w0 = (None, w) \<longrightarrow>
            fst (post_synthesize cfg prov
                  \<lparr>header_x_api_key = Some x_api_key, form_ref_audio = Some up,
                   form_text = Some text, parser_refusal = None\<rparr> w0) =
              Streamed resp"
  proof (intro allI impI)
    fix w0
    assume a: "text \<noteq> [] \<and>
              parse_form
                  \<lparr>header_x_api_key = Some x_api_key, form_ref_audio = Some up,
                   form_text = Some text, parser_refusal = None\<rparr> w0 = (None, w)"
    from a have t: "text \<noteq> []" by simp
    from a have p: "parse_form
                  \<lparr>header_x_api_key = Some x_api_key, form_ref_audio = Some up,
                   form_text = Some text, parser_refusal = None\<rparr> w0 = (None, w)" by simp
    show "fst (post_synthesize cfg prov
                  \<lparr>header_x_api_key = Some x_api_key, form_ref_audio = Some up,
                   form_text = Some text, parser_refusal = None\<rparr> w0) =
              Streamed resp"
      by (simp add: reply_of_handler[OF t p] assms)
  qed
  have rs: "reply_status (Streamed resp) = 200" by (simp add: st)
  have hs': "headers resp =
           [(''Content-Disposition'', ''attachment; filename='' @ [CHR 0x22] @ ''tts.mp3'' @ [CHR 0x22])]"
    by (simp add: hs tts_headers_def)
  from st mt hs' sh bd ch rp rs show ?thesis by blast
qed

theorem success_response_witness:
  "fst (synthesize_endpoint demo_cfg provider_ok upload_500k ''hello world'' ''secret'' demo_world) =
     Inr \<lparr>status_code = 200, media_type = ''audio/mpeg'',
          headers = [(''Content-Disposition'',
                      ''attachment; filename='' @ [CHR 0x22] @ ''tts.mp3'' @ [CHR 0x22])],
          body = replicate 60 1 @ replicate 40 2\<rparr> \<and>
   reply_status (fst (post_synthesize demo_cfg provider_ok (demo_request (Some ''secret'') upload_500k)
     demo_world)) = 200"
proof -
  have k: "''secret'' = BACKEND_ACCESS_KEY demo_cfg" by (simp add: demo_cfg_def)
  have sr: "save_reference upload_500k 10485760 demo_world = (Inr ''/tmp/ref_k3x9aq2_.wav'',
      demo_world\<lparr>files := [''/tmp/ref_k3x9aq2_.wav'' \<mapsto> replicate 500000 7],
                  names := [''p0m4zz7w'', ''k3x9aq2_'', ''h8h8h8h8'', ''c7d1e5f0'']\<rparr>)"
    unfolding upload_500k_def by (rule demo_save_reference) simp
  let ?w2 = "demo_world\<lparr>files := [''/tmp/ref_k3x9aq2_.wav'' \<mapsto> replicate 500000 7,
                                   ''/tmp/out_p0m4zz7w.mp3'' \<mapsto> []],
                         names := [''k3x9aq2_'', ''h8h8h8h8'', ''c7d1e5f0'']\<rparr>"
  let ?resp = "\<lparr>status_code = 200, media_type = ''audio/mpeg'',
          headers = [(''Content-Disposition'',
                      ''attachment; filename='' @ [CHR 0x22] @ ''tts.mp3'' @ [CHR 0x22])],
          body = replicate 60 1 @ replicate 40 2\<rparr>"
  have f: "files ?w2 ''/tmp/ref_k3x9aq2_.wav'' = Some (replicate 500000 7)" by simp
  have c: "ivc_create provider_ok (clone_name_of ''/tmp/ref_k3x9aq2_.wav'') (replicate 500000 7) =
     Inr ''voice-1''" by (simp add: provider_ok_def)
  have t: "tts_convert provider_ok ''hello world'' ''voice-1'' ''eleven_multilingual_v2'' OUTPUT_FORMAT =
     Inr ([replicate 60 1, [], replicate 40 2], None)" by (simp add: provider_ok_def)
  have cs: "fst (clone_and_synthesize provider_ok ''hello world'' ''/tmp/ref_k3x9aq2_.wav''
               ''/tmp/out_p0m4zz7w.mp3'' ?w2) = Inr ?resp"
    by (simp add: clone_and_synthesize_cloned[OF f c] synthesize_text_to_file_done[OF t]
        StreamingResponse_def tts_headers_def)
  have h: "fst (synthesize_endpoint demo_cfg provider_ok upload_500k ''hello world'' ''secret''
             demo_world) = Inr ?resp"
    by (simp add: handler_after_alloc_parts(1)[OF k demo_max sr demo_out] cs)
  obtain tasks w' where run: "synthesize_endpoint demo_cfg provider_ok upload_500k ''hello world''
      ''secret'' demo_world = (Inr ?resp, tasks, w')"
    using h by (cases "synthesize_endpoint demo_cfg provider_ok upload_500k ''hello world''
      ''secret'' demo_world") auto
  have "fst (post_synthesize demo_cfg provider_ok (demo_request (Some ''secret'') upload_500k)
           demo_world) = Streamed ?resp"
    using success_response[OF run] demo_parse[of "Some ''secret''"]
    by (elim conjE allE[of _ demo_world]) (simp add: demo_request_def)
  with h show ?thesis by simp
qed

subsection \<open>Clone names\<close>

lemma handler_scheduled:
  assumes "synthesize_endpoint cfg prov up text x_api_key w = (r, [ref_path, out_path], w')"
  shows "\<exists>maxb w1 w2. save_reference up maxb w = (Inr ref_path, w1) \<and>
           NamedTemporaryFile ''.mp3'' ''out_'' w1 = (Inr out_path, w2) \<and>
           w' = snd (clone_and_synthesize prov text ref_path out_path w2)"
  using assms
  by (auto simp: synthesize_endpoint_def split: if_splits sum.splits prod.splits)
    (metis snd_conv)+

lemma handler_scheduled_call:
  assumes "synthesize_endpoint cfg prov up text x_api_key w = (r, [ref_path, out_path], w')"
  shows "save_upload_tempfile up w = (Inr ref_path, snd (save_upload_tempfile up w))"
    and "ivc_calls w' = ivc_calls w @ [(clone_name_of ref_path, content up)]"
proof -
  from handler_scheduled[OF assms] obtain maxb w1 w2
    where sr: "save_reference up maxb w = (Inr ref_path, w1)"
      and nt: "NamedTemporaryFile ''.mp3'' ''out_'' w1 = (Inr out_path, w2)"
      and w': "w' = snd (clone_and_synthesize prov text ref_path out_path w2)"
    by blast
  have su: "save_upload_tempfile up w = (Inr ref_path, w1)" by (rule save_reference_ok(1)[OF sr])
  then show "save_upload_tempfile up w = (Inr ref_path, snd (save_upload_tempfile up w))" by simp
  have kept: "files w2 ref_path = Some (content up)" by (rule alloc_keeps_reference(2)[OF sr nt])
  have "ivc_calls w2 = ivc_calls w"
    using NamedTemporaryFile_ok(4)[OF nt] save_upload_ok(4)[OF su] by simp
  then show "ivc_calls w' = ivc_calls w @ [(clone_name_of ref_path, content up)]"
    using clone_and_synthesize_calls[OF kept, of prov "text" out_path] w' by simp
qed

lemma basename_path_join:
  assumes "CHR ''/'' \<notin> set b"
  shows "basename (path_join a b) = b"
proof -
  have tw: "takeWhile (\<lambda>c. c \<noteq> CHR ''/'') (rev b) = rev b"
    using assms by (auto simp: takeWhile_eq_all_conv)
  have b0: "basename b = b" by (simp add: basename_def tw)
  have b1: "basename (a @ ''/'' @ b) = b" for a
    using assms by (simp add: basename_def takeWhile_append)
  show ?thesis
  proof (cases "a = [] \<or> last a = CHR ''/''")
    case False
    then show ?thesis using assms b1 by (cases b) (auto simp: path_join_def)
  next
    case True
    show ?thesis
    proof (cases "a = []")
      case True
      then show ?thesis using assms b0 by (cases b) (auto simp: path_join_def)
    next
      case False
      with True have la: "last a = CHR ''/''" by simp
      from False have "a = butlast a @ ''/''" using la by (metis append_butlast_last_id)
      then obtain a' where a: "a = a' @ ''/''" ..
      have "path_join a b = a' @ ''/'' @ b"
        using assms False la a by (cases b) (auto simp: path_join_def)
      then show ?thesis using b1 by simp
    qed
  qed
qed

lemma fresh_paths_differ:
  assumes "save_upload_tempfile up1 wa = (Inr ref1, wa1)"
    and "save_upload_tempfile up2 wb = (Inr ref2, wb1)"
    and "tmpdir wb = tmpdir wa"
    and "files wb ref1 \<noteq> None"
    and "\<forall>n \<in> set (names wa) \<union> set (names wb). CHR ''/'' \<notin> set n"
  shows "clone_name_of ref1 \<noteq> clone_name_of ref2"
proof -
  from save_upload_ok(3)[OF assms(1)] obtain n1 s1
    where n1: "n1 \<in> set (names wa)" and s1: "CHR ''/'' \<notin> set s1"
      and r1: "ref1 = path_join (tmpdir wa) (''ref_'' @ n1 @ s1)" by blast
  from save_upload_ok(3)[OF assms(2)] obtain n2 s2
    where n2: "n2 \<in> set (names wb)" and s2: "CHR ''/'' \<notin> set s2"
      and r2: "ref2 = path_join (tmpdir wb) (''ref_'' @ n2 @ s2)" by blast
  have "files wb ref2 = None" by (rule save_upload_ok(1)[OF assms(2)])
  with assms(4) have ne: "ref1 \<noteq> ref2" by auto
  have b1: "basename ref1 = ''ref_'' @ n1 @ s1"
    unfolding r1 using n1 s1 assms(5) by (intro basename_path_join) auto
  have b2: "basename ref2 = ''ref_'' @ n2 @ s2"
    unfolding r2 using n2 s2 assms(5) by (intro basename_path_join) auto
  have "basename ref1 \<noteq> basename ref2"
  proof
    assume "basename ref1 = basename ref2"
    then have "''ref_'' @ n1 @ s1 = ''ref_'' @ n2 @ s2" using b1 b2 by simp
    then have "ref1 = ref2" using r1 r2 assms(3) by simp
    with ne show False by simp
  qed
  then show ?thesis by (simp add: clone_name_of_def)
qed


lemma demo_first_run:
  "synthesize_endpoint demo_cfg provider_ok upload_500k ''hello world'' ''secret'' demo_world =
     (Inr (StreamingResponse (replicate 60 1 @ replicate 40 2) ''audio/mpeg'' tts_headers),
      [''/tmp/ref_k3x9aq2_.wav'', ''/tmp/out_p0m4zz7w.mp3''],
      demo_world\<lparr>files := [''/tmp/ref_k3x9aq2_.wav'' \<mapsto> replicate 500000 7,
                              ''/tmp/out_p0m4zz7w.mp3'' \<mapsto> replicate 60 1 @ replicate 40 2],
                  names := [''k3x9aq2_'', ''h8h8h8h8'', ''c7d1e5f0''],
                  ivc_calls := [(''ref_clone_ref_k3x9aq2_.wav'', replicate 500000 7)]\<rparr>)"
  by (simp add: run_defs demo_defs)

lemma demo_second_run_overlapping:
  "\<exists>r w'. synthesize_endpoint demo_cfg provider_ok upload_500k ''hello world'' ''secret''
     (demo_world\<lparr>files := [''/tmp/ref_k3x9aq2_.wav'' \<mapsto> replicate 500000 7,
                              ''/tmp/out_p0m4zz7w.mp3'' \<mapsto> replicate 60 1 @ replicate 40 2],
                  names := [''k3x9aq2_'', ''h8h8h8h8'', ''c7d1e5f0''],
                  ivc_calls := [(''ref_clone_ref_k3x9aq2_.wav'', replicate 500000 7)]\<rparr>) =
     (r, [''/tmp/ref_h8h8h8h8.wav'', ''/tmp/out_c7d1e5f0.mp3''], w')"
  by (simp add: run_defs demo_defs)

text \<open>
  C7. Claimed: any two requests get distinct clone names. The name is built from the
  reference file's name, and that name is only guaranteed to differ from the files present
  when it is drawn. Two identical requests served one after the other, the first one's
  files cleaned up in between, can draw the same name and then send the same clone name.
\<close>

theorem sequential_requests_same_clone_name:
  "map fst (ivc_calls (snd (post_synthesize demo_cfg provider_ok
       (demo_request (Some ''secret'') upload_500k)
       (snd (post_synthesize demo_cfg provider_ok (demo_request (Some ''secret'') upload_500k)
          demo_world))))) =
     [''ref_clone_ref_k3x9aq2_.wav'', ''ref_clone_ref_k3x9aq2_.wav'']"
  by (simp add: run_defs demo_defs)


text \<open>
  C7, as the handler has it. Take two requests that both get as far as scheduling their
  files, so that both call the provider's clone operation. Each sends the clone name
  \<open>ref_clone_\<close> followed by the base name of its reference file. If the first request's
  reference file is still present when the second request is handled, in the same
  temporary directory, and no candidate name contains a slash, the two clone names
  differ.
\<close>

theorem coexisting_requests_distinct_clone_names:
  assumes "synthesize_endpoint cfg1 prov1 up1 text1 key1 wa = (r1, [ref1, out1], wa')"
    and "synthesize_endpoint cfg2 prov2 up2 text2 key2 wb = (r2, [ref2, out2], wb')"
    and "tmpdir wb = tmpdir wa"
    and "files wb ref1 \<noteq> None"
    and "\<forall>n \<in> set (names wa) \<union> set (names wb). CHR ''/'' \<notin> set n"
  shows "ivc_calls wa' = ivc_calls wa @ [(clone_name_of ref1, content up1)] \<and>
         ivc_calls wb' = ivc_calls wb @ [(clone_name_of ref2, content up2)] \<and>
         clone_name_of ref1 = ''ref_clone_'' @ basename ref1 \<and>
         clone_name_of ref2 = ''ref_clone_'' @ basename ref2 \<and>
         clone_name_of ref1 \<noteq> clone_name_of ref2"
proof -
  note a = handler_scheduled_call[OF assms(1)]
  note b = handler_scheduled_call[OF assms(2)]
  have "clone_name_of ref1 \<noteq> clone_name_of ref2"
    by (rule fresh_paths_differ[OF a(1) b(1) assms(3,4,5)])
  with a(2) b(2) show ?thesis by (simp add: clone_name_of_def)
qed

theorem coexisting_requests_distinct_clone_names_witness:
  "fst (snd (synthesize_endpoint demo_cfg provider_ok upload_500k ''hello world'' ''secret''
       demo_world)) = [''/tmp/ref_k3x9aq2_.wav'', ''/tmp/out_p0m4zz7w.mp3''] \<and>
   fst (snd (synthesize_endpoint demo_cfg provider_ok upload_500k ''hello world'' ''secret''
       (snd (snd (synthesize_endpoint demo_cfg provider_ok upload_500k ''hello world'' ''secret''
          demo_world))))) = [''/tmp/ref_h8h8h8h8.wav'', ''/tmp/out_c7d1e5f0.mp3''] \<and>
   files (snd (snd (synthesize_endpoint demo_cfg provider_ok upload_500k ''hello world'' ''secret''
       demo_world))) ''/tmp/ref_k3x9aq2_.wav'' \<noteq> None \<and>
   clone_name_of ''/tmp/ref_k3x9aq2_.wav'' = ''ref_clone_ref_k3x9aq2_.wav'' \<and>
   clone_name_of ''/tmp/ref_h8h8h8h8.wav'' = ''ref_clone_ref_h8h8h8h8.wav'' \<and>
   clone_name_of ''/tmp/ref_k3x9aq2_.wav'' \<noteq> clone_name_of ''/tmp/ref_h8h8h8h8.wav''"
proof -
  let ?w1 = "demo_world\<lparr>files := [''/tmp/ref_k3x9aq2_.wav'' \<mapsto> replicate 500000 7,
                              ''/tmp/out_p0m4zz7w.mp3'' \<mapsto> replicate 60 1 @ replicate 40 2],
                  names := [''k3x9aq2_'', ''h8h8h8h8'', ''c7d1e5f0''],
                  ivc_calls := [(''ref_clone_ref_k3x9aq2_.wav'', replicate 500000 7)]\<rparr>"
  from demo_second_run_overlapping obtain r w'
    where run2: "synthesize_endpoint demo_cfg provider_ok upload_500k ''hello world'' ''secret'' ?w1 =
      (r, [''/tmp/ref_h8h8h8h8.wav'', ''/tmp/out_c7d1e5f0.mp3''], w')" by blast
  have td: "tmpdir ?w1 = tmpdir demo_world" by simp
  have ex: "files ?w1 ''/tmp/ref_k3x9aq2_.wav'' \<noteq> None" by simp
  have nm: "\<forall>n \<in> set (names demo_world) \<union> set (names ?w1). CHR ''/'' \<notin> set n"
    by (simp add: demo_world_def)
  have c1: "clone_name_of ''/tmp/ref_k3x9aq2_.wav'' = ''ref_clone_ref_k3x9aq2_.wav''"
    by (simp add: clone_name_of_def basename_def)
  have c2: "clone_name_of ''/tmp/ref_h8h8h8h8.wav'' = ''ref_clone_ref_h8h8h8h8.wav''"
    by (simp add: clone_name_of_def basename_def)
  from coexisting_requests_distinct_clone_names[OF demo_first_run run2 td ex nm]
  have "clone_name_of ''/tmp/ref_k3x9aq2_.wav'' \<noteq> clone_name_of ''/tmp/ref_h8h8h8h8.wav''"
    by (elim conjE)
  then show ?thesis
    using c1 c2 run2 by (simp add: demo_first_run)
qed

subsection \<open>Configuration\<close>













lemma py_int_padded: "py_int demo_runtime '' -1_000 '' = Some (- 1000)"
  by (simp add: py_int_def ascii_int_def is_ascii_def strip_def is_space_def is_digit_def
      demo_runtime_def)



lemma py_int_empty: "py_int rt [] = None"
  by (simp add: py_int_def ascii_int_def strip_def)





end
